theory Spec2Isabelle
  imports Complex_Main
begin

section \<open>JavaScript values\<close>

text \<open>
  A JavaScript number is modelled as a real number extended with the three special
  values of IEEE 754 doubles that the program tests for: \<open>NaN\<close>, \<open>Infinity\<close> and
  \<open>-Infinity\<close>. Arithmetic on finite numbers is exact: the rounding and the overflow
  of doubles, and the sign of zero, are not modelled.
\<close>

datatype num = NaN | PosInf | NegInf | Fin real

text \<open>The values a metric or a cut can hold at run time: a number, a string, or
  \<open>undefined\<close> (a cut that is missing from the object).\<close>

datatype jsval = JNum num | JStr string | JUndefined

text \<open>A thrown \<open>Error\<close> with its message.\<close>

datatype exn = Error string

fun isNaN :: "num \<Rightarrow> bool" where
  "isNaN NaN = True"
| "isNaN _ = False"

fun isFinite :: "num \<Rightarrow> bool" where
  "isFinite (Fin r) = True"
| "isFinite _ = False"

text \<open>The comparison operators of JavaScript: every comparison with \<open>NaN\<close> is false.\<close>

fun jlt :: "num \<Rightarrow> num \<Rightarrow> bool" where
  "jlt NaN _ = False"
| "jlt _ NaN = False"
| "jlt (Fin a) (Fin b) = (a < b)"
| "jlt PosInf _ = False"
| "jlt _ NegInf = False"
| "jlt NegInf _ = True"
| "jlt _ PosInf = True"

definition jgt :: "num \<Rightarrow> num \<Rightarrow> bool" where
  "jgt a b = jlt b a"

fun jle :: "num \<Rightarrow> num \<Rightarrow> bool" where
  "jle NaN _ = False"
| "jle _ NaN = False"
| "jle a b = (\<not> jlt b a)"

definition jge :: "num \<Rightarrow> num \<Rightarrow> bool" where
  "jge a b = jle b a"

text \<open>Subtraction, as the sort comparators use it on cuts that may be infinite.\<close>

fun jsub :: "num \<Rightarrow> num \<Rightarrow> num" where
  "jsub (Fin a) (Fin b) = Fin (a - b)"
| "jsub NaN _ = NaN"
| "jsub _ NaN = NaN"
| "jsub PosInf PosInf = NaN"
| "jsub NegInf NegInf = NaN"
| "jsub PosInf _ = PosInf"
| "jsub NegInf _ = NegInf"
| "jsub _ PosInf = NegInf"
| "jsub _ NegInf = PosInf"

section \<open>Strings and numbers\<close>

definition isDigit :: "char \<Rightarrow> bool" where
  "isDigit c = (c \<in> set ''0123456789'')"

definition digitVal :: "char \<Rightarrow> nat" where
  "digitVal c = of_char c - 48"

text \<open>\<open>parseInt(ds, 10)\<close> on a string of decimal digits.\<close>

definition parseInt10 :: "string \<Rightarrow> nat" where
  "parseInt10 ds = foldl (\<lambda>a c. 10 * a + digitVal c) 0 ds"

text \<open>\<open>parseFloat('0.' + ds)\<close> on a string of decimal digits.\<close>

definition parseFraction :: "string \<Rightarrow> real" where
  "parseFraction ds = real (parseInt10 ds) / 10 ^ length ds"

definition digitChar :: "nat \<Rightarrow> char" where
  "digitChar d = ''0123456789'' ! d"

text \<open>The decimal digits of a non-negative integer, as \<open>toString\<close> prints it.\<close>

fun showNat :: "nat \<Rightarrow> string" where
  "showNat n = (if n < 10 then [digitChar n] else showNat (n div 10) @ [digitChar (n mod 10)])"

declare showNat.simps [simp del]

text \<open>\<open>String.prototype.trim\<close>, on the ASCII white space and line terminators.\<close>

definition isSpace :: "char \<Rightarrow> bool" where
  "isSpace c = (of_char c \<in> {9, 10, 11, 12, 13, 32 :: nat})"

definition trim :: "string \<Rightarrow> string" where
  "trim s = rev (dropWhile isSpace (rev (dropWhile isSpace s)))"

text \<open>
  The fractional digits of \<open>Number::toString\<close> for a number with a fractional part.
  JavaScript prints the shortest digits that read back as the same double; on exact
  reals the model prints the decimal expansion, cut after \<open>k\<close> digits.
\<close>

fun fracDigits :: "nat \<Rightarrow> real \<Rightarrow> string" where
  "fracDigits 0 x = []"
| "fracDigits (Suc k) x =
     (if x = 0 then []
      else digitChar (nat \<lfloor>x * 10\<rfloor>) # fracDigits k (x * 10 - of_int \<lfloor>x * 10\<rfloor>))"

text \<open>
  \<open>String(n)\<close> and the \<open>${n}\<close> of a template literal. The exponent notation that
  JavaScript uses from \<open>1e21\<close> on and below \<open>1e-6\<close> is not modelled.
\<close>

fun numberToString :: "num \<Rightarrow> string" where
  "numberToString NaN = ''NaN''"
| "numberToString PosInf = ''Infinity''"
| "numberToString NegInf = ''-Infinity''"
| "numberToString (Fin r) =
     (if r < 0 then ''-'' else '''') @ showNat (nat \<lfloor>\<bar>r\<bar>\<rfloor>) @
     (if \<bar>r\<bar> = of_int \<lfloor>\<bar>r\<bar>\<rfloor> then ''''
      else ''.'' @ fracDigits 17 (\<bar>r\<bar> - of_int \<lfloor>\<bar>r\<bar>\<rfloor>))"

text \<open>\<open>String(v)\<close> on a metric or cut value.\<close>

fun jsString :: "jsval \<Rightarrow> string" where
  "jsString (JNum n) = numberToString n"
| "jsString (JStr s) = s"
| "jsString JUndefined = ''undefined''"

subsection \<open>The three regular expressions of the default parser\<close>

text \<open>\<open>[0-5]\<close>\<close>

definition isSexDigit :: "char \<Rightarrow> bool" where
  "isSexDigit c = (c \<in> set ''012345'')"

text \<open>
  The tail \<open>(?:\.(\d+))?$\<close> of the three expressions, matched against what is left
  of the string: \<open>Some None\<close> when nothing is left, \<open>Some (Some ds)\<close> when a dot and
  one or more digits are left, \<open>None\<close> (no match) otherwise.
\<close>

definition optFraction :: "string \<Rightarrow> string option option" where
  "optFraction r =
     (case r of
        [] \<Rightarrow> Some None
      | c # ds \<Rightarrow> if c = CHR ''.'' \<and> ds \<noteq> [] \<and> list_all isDigit ds then Some (Some ds) else None)"

text \<open>
  \<open>/^(\d+):([0-5]\d):([0-5]\d)(?:\.(\d+))?$/\<close>. The greedy \<open>\d+\<close> takes every leading
  digit, since the next character has to be a colon. The result holds the capture
  groups.
\<close>

definition matchHMS :: "string \<Rightarrow> (string \<times> string \<times> string \<times> string option) option" where
  "matchHMS s =
     (let h = takeWhile isDigit s in
      if h = [] then None
      else case dropWhile isDigit s of
        c1 # m1 # m2 # c2 # s1 # s2 # rest \<Rightarrow>
          if c1 = CHR '':'' \<and> isSexDigit m1 \<and> isDigit m2 \<and>
             c2 = CHR '':'' \<and> isSexDigit s1 \<and> isDigit s2
          then (case optFraction rest of
                  None \<Rightarrow> None
                | Some f \<Rightarrow> Some (h, [m1, m2], [s1, s2], f))
          else None
      | _ \<Rightarrow> None)"

text \<open>\<open>/^(\d+):([0-5]\d)(?:\.(\d+))?$/\<close>\<close>

definition matchMS :: "string \<Rightarrow> (string \<times> string \<times> string option) option" where
  "matchMS s =
     (let m = takeWhile isDigit s in
      if m = [] then None
      else case dropWhile isDigit s of
        c1 # s1 # s2 # rest \<Rightarrow>
          if c1 = CHR '':'' \<and> isSexDigit s1 \<and> isDigit s2
          then (case optFraction rest of
                  None \<Rightarrow> None
                | Some f \<Rightarrow> Some (m, [s1, s2], f))
          else None
      | _ \<Rightarrow> None)"

text \<open>\<open>/^(-?\d+)(?:\.(\d+))?$/\<close>: the sign, the integer digits and the fraction.\<close>

definition matchSeconds :: "string \<Rightarrow> (bool \<times> string \<times> string option) option" where
  "matchSeconds s =
     (let neg = (s \<noteq> [] \<and> hd s = CHR ''-'');
          t = (if neg then tl s else s);
          i = takeWhile isDigit t
      in if i = [] then None
         else case optFraction (dropWhile isDigit t) of
                None \<Rightarrow> None
              | Some f \<Rightarrow> Some (neg, i, f))"

text \<open>The value of the optional fraction group: \<open>m[k] ? parseFloat('0.' + m[k]) : 0\<close>.\<close>

definition fractionOf :: "string option \<Rightarrow> real" where
  "fractionOf f = (case f of None \<Rightarrow> 0 | Some ds \<Rightarrow> parseFraction ds)"

subsection \<open>The built-in conversion \<open>Number(s)\<close>\<close>

definition isHexDigit :: "char \<Rightarrow> bool" where
  "isHexDigit c = (c \<in> set ''0123456789abcdefABCDEF'')"

definition hexVal :: "char \<Rightarrow> nat" where
  "hexVal c =
     (if isDigit c then of_char c - 48
      else if c \<in> set ''abcdef'' then of_char c - 87
      else of_char c - 55)"

definition parseRadix :: "nat \<Rightarrow> string \<Rightarrow> nat" where
  "parseRadix b ds = foldl (\<lambda>a c. b * a + hexVal c) 0 ds"

text \<open>The exponent part \<open>[eE][+-]?\d+\<close> of a decimal literal, or nothing.\<close>

definition exponentPart :: "string \<Rightarrow> int option" where
  "exponentPart r =
     (case r of
        [] \<Rightarrow> Some 0
      | c # t \<Rightarrow>
          if c = CHR ''e'' \<or> c = CHR ''E'' then
            (let sgn = (t \<noteq> [] \<and> (hd t = CHR ''-'' \<or> hd t = CHR ''+''));
                 ds = (if sgn then tl t else t)
             in if ds \<noteq> [] \<and> list_all isDigit ds
                then Some (if sgn \<and> hd t = CHR ''-'' then - int (parseInt10 ds)
                           else int (parseInt10 ds))
                else None)
          else None)"

definition scale10 :: "real \<Rightarrow> int \<Rightarrow> real" where
  "scale10 x e = (if 0 \<le> e then x * 10 ^ nat e else x / 10 ^ nat (- e))"

text \<open>An unsigned decimal literal: \<open>Infinity\<close>, \<open>12\<close>, \<open>12.\<close>, \<open>12.5\<close>, \<open>.5\<close>, each
  of the last four with an optional exponent.\<close>

definition unsignedDecimal :: "string \<Rightarrow> num" where
  "unsignedDecimal s =
     (if s = ''Infinity'' then PosInf
      else
        let ip = takeWhile isDigit s;
            r = dropWhile isDigit s;
            dot = (r \<noteq> [] \<and> hd r = CHR ''.'');
            fp = (if dot then takeWhile isDigit (tl r) else []);
            r2 = (if dot then dropWhile isDigit (tl r) else r)
        in if ip = [] \<and> fp = [] then NaN
           else case exponentPart r2 of
                  None \<Rightarrow> NaN
                | Some e \<Rightarrow> Fin (scale10 (real (parseInt10 (ip @ fp))) (e - int (length fp))))"

fun jneg :: "num \<Rightarrow> num" where
  "jneg NaN = NaN"
| "jneg PosInf = NegInf"
| "jneg NegInf = PosInf"
| "jneg (Fin r) = Fin (- r)"

text \<open>
  \<open>Number(s)\<close> on a string: white space is trimmed, the empty string is \<open>0\<close>, then a
  hexadecimal, octal or binary integer literal, or a signed decimal literal; anything
  else is \<open>NaN\<close>.
\<close>

definition jsNumber :: "string \<Rightarrow> num" where
  "jsNumber str =
     (let s = trim str in
      if s = [] then Fin 0
      else if 2 < length s \<and> take 2 s \<in> {''0x'', ''0X''} \<and> list_all isHexDigit (drop 2 s)
        then Fin (real (parseRadix 16 (drop 2 s)))
      else if 2 < length s \<and> take 2 s \<in> {''0o'', ''0O''} \<and> list_all (\<lambda>c. c \<in> set ''01234567'') (drop 2 s)
        then Fin (real (parseRadix 8 (drop 2 s)))
      else if 2 < length s \<and> take 2 s \<in> {''0b'', ''0B''} \<and> list_all (\<lambda>c. c \<in> set ''01'') (drop 2 s)
        then Fin (real (parseRadix 2 (drop 2 s)))
      else if hd s = CHR ''-'' then jneg (unsignedDecimal (tl s))
      else if hd s = CHR ''+'' then unsignedDecimal (tl s)
      else unsignedDecimal s)"

text \<open>\<open>parseFloat(s)\<close> on a string that matched the third expression.\<close>

definition parseFloatSeconds :: "bool \<times> string \<times> string option \<Rightarrow> real" where
  "parseFloatSeconds m =
     (case m of (neg, i, f) \<Rightarrow>
        (if neg then - (real (parseInt10 i) + fractionOf f) else real (parseInt10 i) + fractionOf f))"

section \<open>The default parser and formatters\<close>

definition defaultTimeParser :: "jsval \<Rightarrow> num" where
  "defaultTimeParser input =
     (case input of
        JNum n \<Rightarrow> n
      | JUndefined \<Rightarrow> NaN
      | JStr str \<Rightarrow>
          (let s = trim str in
           case matchHMS s of
             Some (h, m, sec, f) \<Rightarrow>
               Fin (real (parseInt10 h) * 3600 + real (parseInt10 m) * 60
                    + real (parseInt10 sec) + fractionOf f)
           | None \<Rightarrow>
              (case matchMS s of
                 Some (m, sec, f) \<Rightarrow>
                   Fin (real (parseInt10 m) * 60 + real (parseInt10 sec) + fractionOf f)
               | None \<Rightarrow>
                  (case matchSeconds s of
                     Some g \<Rightarrow> Fin (parseFloatSeconds g)
                   | None \<Rightarrow> (let n = jsNumber s in if isFinite n then n else NaN)))))"

text \<open>\<open>n.toString().padStart(2, '0')\<close>, on the non-negative integers it is called with.\<close>

definition pad2 :: "nat \<Rightarrow> string" where
  "pad2 n = replicate (2 - length (showNat n)) CHR ''0'' @ showNat n"

text \<open>The remainder \<open>x % y\<close> of JavaScript: the quotient is truncated towards zero.\<close>

definition jsmod :: "real \<Rightarrow> real \<Rightarrow> real" where
  "jsmod x y = x - y * of_int (if 0 \<le> x / y then \<lfloor>x / y\<rfloor> else \<lceil>x / y\<rceil>)"

text \<open>\<open>Math.round\<close>: the nearest integer, a tie going up.\<close>

definition mathRound :: "real \<Rightarrow> int" where
  "mathRound x = \<lfloor>x + 1 / 2\<rfloor>"

fun defaultFormatAbsolute :: "num \<Rightarrow> string" where
  "defaultFormatAbsolute (Fin val) =
     (let sign = (if val < 0 then ''-'' else '''');
          v = \<bar>val\<bar>;
          hours = nat \<lfloor>v / 3600\<rfloor>;
          minutes = nat \<lfloor>jsmod v 3600 / 60\<rfloor>;
          seconds = nat \<lfloor>jsmod v 60\<rfloor>;
          hundredths = nat (mathRound ((v - of_int \<lfloor>v\<rfloor>) * 100))
      in if 0 < hours then
           sign @ showNat hours @ '':'' @ pad2 minutes @ '':'' @ pad2 seconds @ ''.'' @ pad2 hundredths
         else if 0 < minutes then
           sign @ showNat minutes @ '':'' @ pad2 seconds @ ''.'' @ pad2 hundredths
         else sign @ pad2 seconds @ ''.'' @ pad2 hundredths)"
| "defaultFormatAbsolute n = numberToString n"

text \<open>
  \<open>x.toFixed(1)\<close> on a finite number: the integer \<open>n\<close> with \<open>n / 10\<close> nearest to
  \<open>|x|\<close> (the larger one on a tie), printed with one digit after the point.
\<close>

definition toFixed1 :: "real \<Rightarrow> string" where
  "toFixed1 x =
     (let n = nat \<lfloor>\<bar>x\<bar> * 10 + 1 / 2\<rfloor>
      in (if x < 0 then ''-'' else '''') @ showNat (n div 10) @ ''.'' @ showNat (n mod 10))"

fun defaultFormatRelative :: "num \<Rightarrow> string" where
  "defaultFormatRelative (Fin p) = toFixed1 p @ ''%''"
| "defaultFormatRelative n = numberToString n"

declare defaultFormatAbsolute.simps [simp del] defaultFormatRelative.simps [simp del]

section \<open>The data model\<close>

record Standard =
  label :: string
  cut :: jsval
  ident :: "string option"
  description :: "string option"

text \<open>The resolved direction, and the three values of the \<open>direction\<close> option.\<close>

datatype direction = Higher | Lower

datatype directionOption = DirHigher | DirLower | DirAuto

datatype validationModeOption = Warn | Throw

text \<open>
  A caller-supplied parser or formatter is a JavaScript function and may throw:
  it returns either the thrown error or its value. It is a function of its argument:
  a parser that answers differently from one call to the next is outside the model.
  A call without the \<open>options\<close> argument is the record with every field \<open>None\<close>.
\<close>

record PerformanceOptions =
  direction :: "directionOption option"
  levels :: "string list option"
  parser :: "(jsval \<Rightarrow> exn + num) option"
  formatAbsolute :: "(num \<Rightarrow> exn + string) option"
  formatRelative :: "(num \<Rightarrow> exn + string) option"
  validationMode :: "validationModeOption option"

record Diff =
  absolute :: num
  relative :: num

record DiffFormatted =
  absolute_str :: string
  relative_str :: string

record NextCut =
  nc_label :: string
  nc_cut :: string

record Validation =
  valid :: bool
  errors :: "string list"

record PerformanceResult =
  result_label :: string
  index :: int
  standard :: "Standard option"
  nextStandard :: "Standard option"
  nextCut :: "NextCut option"
  diffToNext :: "Diff option"
  diffToNextFormatted :: "DiffFormatted option"
  validation :: Validation

text \<open>An element of \<open>numericStandards\<close>.\<close>

record Entry =
  idx :: nat
  std :: Standard
  cutNum :: num

definition noOptions :: PerformanceOptions where
  "noOptions = \<lparr>direction = None, levels = None, parser = None, formatAbsolute = None,
     formatRelative = None, validationMode = None\<rparr>"

section \<open>Exceptions\<close>

text \<open>Sequencing of two computations that may throw: the first error wins.\<close>

definition bindE :: "exn + 'a \<Rightarrow> ('a \<Rightarrow> exn + 'b) \<Rightarrow> exn + 'b" where
  "bindE m f = (case m of Inl e \<Rightarrow> Inl e | Inr x \<Rightarrow> f x)"

text \<open>\<open>typeof v === 'number' ? v : parser(v)\<close>\<close>

definition toNum :: "(jsval \<Rightarrow> exn + num) \<Rightarrow> jsval \<Rightarrow> exn + num" where
  "toNum p v = (case v of JNum n \<Rightarrow> Inr n | _ \<Rightarrow> p v)"

section \<open>Direction resolution\<close>

text \<open>The \<open>Map\<close> filled by \<open>for (const s of standards) labelToStd.set(s.label, s)\<close>.\<close>

definition labelToStd :: "Standard list \<Rightarrow> (string \<rightharpoonup> Standard)" where
  "labelToStd stds = foldl (\<lambda>m s. m(label s \<mapsto> s)) Map.empty stds"

text \<open>
  The loop over \<open>options.levels\<close> that collects the parsed cuts: \<open>None\<close> is
  \<open>canInfer = false\<close>, reached at the first level that has no standard, no cut or an
  unparsable cut.
\<close>

fun levelCuts :: "(jsval \<Rightarrow> exn + num) \<Rightarrow> (string \<rightharpoonup> Standard) \<Rightarrow> string list \<Rightarrow> exn + num list option" where
  "levelCuts p m [] = Inr (Some [])"
| "levelCuts p m (lvl # rest) =
     (case m lvl of
        None \<Rightarrow> Inr None
      | Some s \<Rightarrow>
          if cut s = JUndefined then Inr None
          else bindE (toNum p (cut s)) (\<lambda>parsed.
                 if isNaN parsed then Inr None
                 else bindE (levelCuts p m rest) (\<lambda>r. Inr (map_option ((#) parsed) r))))"

fun increasing :: "num list \<Rightarrow> bool" where
  "increasing (a # b # cs) = (jgt b a \<and> increasing (b # cs))"
| "increasing _ = True"

fun decreasing :: "num list \<Rightarrow> bool" where
  "decreasing (a # b # cs) = (jlt b a \<and> decreasing (b # cs))"
| "decreasing _ = True"

definition msgNotMonotonic :: string where
  \<open>msgNotMonotonic = ''Auto-direction inference failed: levels cuts are not monotonic; defaulting to "lower"''\<close>

definition msgMissingCuts :: string where
  \<open>msgMissingCuts = ''Auto-direction inference failed: missing/invalid cuts for some levels; defaulting to "lower"''\<close>

definition msgRequiresLevels :: string where
  \<open>msgRequiresLevels = ''Auto-direction inference requires `levels`; defaulting to "lower"''\<close>

text \<open>Lines 99 to 142: the resolved direction and the diagnostics pushed on the way.\<close>

definition resolveDirection ::
  "(jsval \<Rightarrow> exn + num) \<Rightarrow> Standard list \<Rightarrow> PerformanceOptions \<Rightarrow> exn + direction \<times> string list" where
  "resolveDirection p stds opts =
     (case direction opts of
        None \<Rightarrow> Inr (Lower, [])
      | Some DirHigher \<Rightarrow> Inr (Higher, [])
      | Some DirLower \<Rightarrow> Inr (Lower, [])
      | Some DirAuto \<Rightarrow>
          (case levels opts of
             None \<Rightarrow> Inr (Lower, [msgRequiresLevels])
           | Some lv \<Rightarrow>
               bindE (levelCuts p (labelToStd stds) lv) (\<lambda>r.
                 case r of
                   None \<Rightarrow> Inr (Lower, [msgMissingCuts])
                 | Some cuts \<Rightarrow>
                     if increasing cuts \<and> \<not> decreasing cuts then Inr (Higher, [])
                     else if decreasing cuts \<and> \<not> increasing cuts then Inr (Lower, [])
                     else Inr (Lower, [msgNotMonotonic]))))"

section \<open>Validation of the levels\<close>

definition msgDuplicate :: "string \<Rightarrow> string" where
  "msgDuplicate l = ''Duplicate standard label '' @ [CHR 0x27] @ l @ [CHR 0x27] @ '' in standards''"

definition msgMissingLevel :: "string \<Rightarrow> string" where
  "msgMissingLevel l = ''Level '' @ [CHR 0x27] @ l @ [CHR 0x27] @
     '' is declared in options.levels but missing from standards''"

definition msgUnparsablePair :: "string \<Rightarrow> string \<Rightarrow> string" where
  "msgUnparsablePair lo hi = ''Unable to parse cuts for levels '' @ [CHR 0x27] @ lo @ [CHR 0x27] @
     '' or '' @ [CHR 0x27] @ hi @ [CHR 0x27]"

definition msgOrdering :: "string \<Rightarrow> num \<Rightarrow> string \<Rightarrow> string \<Rightarrow> num \<Rightarrow> string \<Rightarrow> string" where
  "msgOrdering lo loCut rel hi hiCut d =
     ''Ordering violation: level '' @ [CHR 0x27] @ lo @ [CHR 0x27] @ '' (cut='' @ numberToString loCut @
     '') should be '' @ rel @ '' '' @ [CHR 0x27] @ hi @ [CHR 0x27] @ '' (cut='' @ numberToString hiCut @
     '') for direction '' @ [CHR 0x27] @ d @ [CHR 0x27]"

text \<open>
  The loop that fills the second \<open>labelToStd\<close> and reports a label that the map
  already has.
\<close>

fun duplicateLoop :: "(string \<rightharpoonup> Standard) \<Rightarrow> Standard list \<Rightarrow> string list \<Rightarrow> (string \<rightharpoonup> Standard) \<times> string list" where
  "duplicateLoop m [] errs = (m, errs)"
| "duplicateLoop m (s # ss) errs =
     duplicateLoop (m(label s \<mapsto> s)) ss
       (if m (label s) \<noteq> None then errs @ [msgDuplicate (label s)] else errs)"

fun missingLoop :: "(string \<rightharpoonup> Standard) \<Rightarrow> string list \<Rightarrow> string list \<Rightarrow> string list" where
  "missingLoop m [] errs = errs"
| "missingLoop m (lvl # rest) errs =
     missingLoop m rest (if m lvl = None then errs @ [msgMissingLevel lvl] else errs)"

text \<open>The inner loop over \<open>j\<close>: the level \<open>low\<close> against every later level.\<close>

fun orderingInner ::
  "(jsval \<Rightarrow> exn + num) \<Rightarrow> (string \<rightharpoonup> Standard) \<Rightarrow> direction \<Rightarrow> string \<Rightarrow> string list \<Rightarrow> string list \<Rightarrow> exn + string list" where
  "orderingInner p m d lowLabel [] errs = Inr errs"
| "orderingInner p m d lowLabel (highLabel # rest) errs =
     (case m lowLabel of
        None \<Rightarrow> orderingInner p m d lowLabel rest errs
      | Some lowStd \<Rightarrow>
         (case m highLabel of
            None \<Rightarrow> orderingInner p m d lowLabel rest errs
          | Some highStd \<Rightarrow>
              bindE (toNum p (cut lowStd)) (\<lambda>lowCut.
              bindE (toNum p (cut highStd)) (\<lambda>highCut.
                if isNaN lowCut \<or> isNaN highCut then
                  orderingInner p m d lowLabel rest (errs @ [msgUnparsablePair lowLabel highLabel])
                else if d = Lower then
                  (if \<not> jgt lowCut highCut then
                     orderingInner p m d lowLabel rest
                       (errs @ [msgOrdering lowLabel lowCut ''>'' highLabel highCut ''lower''])
                   else orderingInner p m d lowLabel rest errs)
                else
                  (if \<not> jlt lowCut highCut then
                     orderingInner p m d lowLabel rest
                       (errs @ [msgOrdering lowLabel lowCut ''<'' highLabel highCut ''higher''])
                   else orderingInner p m d lowLabel rest errs)))))"

text \<open>The outer loop over \<open>i\<close>.\<close>

fun orderingOuter ::
  "(jsval \<Rightarrow> exn + num) \<Rightarrow> (string \<rightharpoonup> Standard) \<Rightarrow> direction \<Rightarrow> string list \<Rightarrow> string list \<Rightarrow> exn + string list" where
  "orderingOuter p m d [] errs = Inr errs"
| "orderingOuter p m d (lowLabel # rest) errs =
     bindE (orderingInner p m d lowLabel rest errs) (orderingOuter p m d rest)"

text \<open>Lines 144 to 184: nothing is checked unless \<open>options.levels\<close> is given.\<close>

definition validateLevels ::
  "(jsval \<Rightarrow> exn + num) \<Rightarrow> Standard list \<Rightarrow> direction \<Rightarrow> PerformanceOptions \<Rightarrow> string list \<Rightarrow> exn + string list" where
  "validateLevels p stds d opts errs =
     (case levels opts of
        None \<Rightarrow> Inr errs
      | Some lv \<Rightarrow>
          (case duplicateLoop Map.empty stds errs of
             (m, errs1) \<Rightarrow> orderingOuter p m d lv (missingLoop m lv errs1)))"

section \<open>Matching\<close>

definition isMatchNum :: "num \<Rightarrow> num \<Rightarrow> direction \<Rightarrow> bool" where
  "isMatchNum metric c d =
     (if isNaN c then False
      else if d = Higher then jge metric c
      else jle metric c)"

definition msgUnparsableCut :: "string \<Rightarrow> string" where
  "msgUnparsableCut l = ''Unable to parse cut value for standard '' @ [CHR 0x27] @ l @ [CHR 0x27]"

text \<open>
  The loop that builds \<open>numericStandards\<close> from position \<open>i\<close> on: the entries, and
  the diagnostics in the order they are pushed.
\<close>

fun numericLoop :: "(jsval \<Rightarrow> exn + num) \<Rightarrow> nat \<Rightarrow> Standard list \<Rightarrow> exn + Entry list \<times> string list" where
  "numericLoop p i [] = Inr ([], [])"
| "numericLoop p i (s # ss) =
     bindE (toNum p (cut s)) (\<lambda>c.
     bindE (numericLoop p (Suc i) ss) (\<lambda>r.
       Inr (\<lparr>idx = i, std = s, cutNum = c\<rparr> # fst r,
            (if isNaN c then [msgUnparsableCut (label s)] else []) @ snd r)))"

text \<open>
  \<open>Array.prototype.sort\<close> with a comparator: a stable sort, written as the insertion
  sort that keeps an element in front of the elements it does not exceed. A
  comparator result that is \<open>NaN\<close> counts as zero.
\<close>

fun insertBy :: "('a \<Rightarrow> 'a \<Rightarrow> num) \<Rightarrow> 'a \<Rightarrow> 'a list \<Rightarrow> 'a list" where
  "insertBy cmp x [] = [x]"
| "insertBy cmp x (y # ys) =
     (if jgt (cmp x y) (Fin 0) then y # insertBy cmp x ys else x # y # ys)"

definition sortBy :: "('a \<Rightarrow> 'a \<Rightarrow> num) \<Rightarrow> 'a list \<Rightarrow> 'a list" where
  "sortBy cmp xs = foldr (insertBy cmp) xs []"

text \<open>\<open>(a, b) => a.cutNum - b.cutNum\<close> and \<open>(a, b) => b.cutNum - a.cutNum\<close>\<close>

definition ascending :: "Entry \<Rightarrow> Entry \<Rightarrow> num" where
  "ascending a b = jsub (cutNum a) (cutNum b)"

definition descending :: "Entry \<Rightarrow> Entry \<Rightarrow> num" where
  "descending a b = jsub (cutNum b) (cutNum a)"

text \<open>
  The search for the next standard, which the source writes out twice: with the
  metric as the reference in the unmatched branch (lines 220 to 232), with the cut
  of the matched standard in the matched branch (lines 280 to 286).
\<close>

definition nextCandidates :: "direction \<Rightarrow> Entry list \<Rightarrow> num \<Rightarrow> Entry list" where
  "nextCandidates d ns ref =
     (if d = Higher then
        sortBy ascending (filter (\<lambda>e. isFinite (cutNum e) \<and> jgt (cutNum e) ref) ns)
      else
        sortBy descending (filter (\<lambda>e. isFinite (cutNum e) \<and> jlt (cutNum e) ref) ns))"

definition nextBetter :: "direction \<Rightarrow> Entry list \<Rightarrow> num \<Rightarrow> Standard option" where
  "nextBetter d ns ref =
     (case nextCandidates d ns ref of [] \<Rightarrow> None | c # cs \<Rightarrow> Some (std c))"

text \<open>
  \<open>numericStandards.find((e) => e.std === next)\<close>, then the cut of the entry or
  \<open>NaN\<close>. The identity of objects is modelled by the equality of records: an equal
  standard has an equal cut, and the parser, a function, gives it the same number.
\<close>

definition cutOfStandard :: "Entry list \<Rightarrow> Standard \<Rightarrow> num" where
  "cutOfStandard ns s = (case find (\<lambda>e. std e = s) ns of None \<Rightarrow> NaN | Some e \<Rightarrow> cutNum e)"

section \<open>The difference to the next standard\<close>

text \<open>The arithmetic of lines 241 to 251 and 294 to 304, on finite numbers.\<close>

definition diffTo :: "direction \<Rightarrow> real \<Rightarrow> real \<Rightarrow> Diff" where
  "diffTo d nextCutNum metricNum =
     (let abs = (if d = Higher then max 0 (nextCutNum - metricNum) else max 0 (metricNum - nextCutNum));
          denom = (if \<bar>nextCutNum\<bar> > 0 then \<bar>nextCutNum\<bar> else 1);
          rel = (abs / denom) * 100
      in \<lparr>absolute = Fin abs, relative = Fin rel\<rparr>)"

definition formatDiff :: "(num \<Rightarrow> exn + string) \<Rightarrow> (num \<Rightarrow> exn + string) \<Rightarrow> Diff \<Rightarrow> exn + DiffFormatted" where
  "formatDiff fa fr df =
     bindE (fa (absolute df)) (\<lambda>a.
     bindE (fr (relative df)) (\<lambda>r.
       Inr \<lparr>absolute_str = a, relative_str = r\<rparr>))"

definition buildNextCutObject ::
  "(jsval \<Rightarrow> exn + num) \<Rightarrow> (num \<Rightarrow> exn + string) \<Rightarrow> Standard option \<Rightarrow> exn + NextCut option" where
  "buildNextCutObject p fa so =
     (case so of
        None \<Rightarrow> Inr None
      | Some s \<Rightarrow>
          bindE (toNum p (cut s)) (\<lambda>parsed.
          bindE (case cut s of
                   JStr x \<Rightarrow> Inr x
                 | _ \<Rightarrow> if isFinite parsed then fa parsed else Inr (jsString (cut s))) (\<lambda>cutStr.
            Inr (Some \<lparr>nc_label = label s, nc_cut = cutStr\<rparr>))))"

definition msgNextUnparsable :: string where
  "msgNextUnparsable = ''Unable to parse cut value for next standard''"

definition msgDiffUnparsable :: string where
  "msgDiffUnparsable = ''Unable to compute diff: next standard cut could not be parsed''"

text \<open>Lines 214 to 267: no standard matches.\<close>

definition unmatchedResult ::
  "(jsval \<Rightarrow> exn + num) \<Rightarrow> (num \<Rightarrow> exn + string) \<Rightarrow> (num \<Rightarrow> exn + string) \<Rightarrow> direction \<Rightarrow> num \<Rightarrow>
   Entry list \<Rightarrow> string list \<Rightarrow> exn + PerformanceResult" where
  "unmatchedResult p fa fr d metricNum ns errs =
     (let nextBest = (if isFinite metricNum then nextBetter d ns metricNum else None)
      in bindE
           (case nextBest of
              None \<Rightarrow> Inr (None, None, errs)
            | Some nb \<Rightarrow>
               (case metricNum of
                  Fin mv \<Rightarrow>
                    (case cutOfStandard ns nb of
                       Fin cv \<Rightarrow>
                         bindE (formatDiff fa fr (diffTo d cv mv)) (\<lambda>f.
                           Inr (Some (diffTo d cv mv), Some f, errs))
                     | _ \<Rightarrow> Inr (None, None, errs @ [msgNextUnparsable]))
                | _ \<Rightarrow> Inr (None, None, errs)))
           (\<lambda>(df, formatted, errs').
              bindE (buildNextCutObject p fa nextBest) (\<lambda>nc.
                Inr \<lparr>result_label = ''unknown'', index = - 1, standard = None,
                     nextStandard = nextBest, nextCut = nc, diffToNext = df,
                     diffToNextFormatted = formatted,
                     validation = \<lparr>valid = (errs' = []), errors = errs'\<rparr>\<rparr>)))"

text \<open>Lines 269 to 331: the best match is the head of the sorted matches.\<close>

definition matchedResult ::
  "(jsval \<Rightarrow> exn + num) \<Rightarrow> (num \<Rightarrow> exn + string) \<Rightarrow> (num \<Rightarrow> exn + string) \<Rightarrow> direction \<Rightarrow> num \<Rightarrow>
   Entry list \<Rightarrow> Entry \<Rightarrow> string list \<Rightarrow> exn + PerformanceResult" where
  "matchedResult p fa fr d metricNum ns bestMatch errs =
     (let currentCutNum = cutNum bestMatch;
          next = nextBetter d ns currentCutNum;
          (df, errs') =
            (case next of
               None \<Rightarrow> (None, errs)
             | Some nx \<Rightarrow>
                (case (cutOfStandard ns nx, metricNum) of
                   (Fin cv, Fin mv) \<Rightarrow> (Some (diffTo d cv mv), errs)
                 | _ \<Rightarrow> (None, errs @ [msgDiffUnparsable])))
      in bindE
           (case df of
              None \<Rightarrow> Inr None
            | Some x \<Rightarrow> bindE (formatDiff fa fr x) (\<lambda>f. Inr (Some f)))
           (\<lambda>formatted.
              bindE (buildNextCutObject p fa next) (\<lambda>nc.
                Inr \<lparr>result_label = label (std bestMatch), index = int (idx bestMatch),
                     standard = Some (std bestMatch), nextStandard = next, nextCut = nc,
                     diffToNext = df, diffToNextFormatted = formatted,
                     validation = \<lparr>valid = (errs' = []), errors = errs'\<rparr>\<rparr>)))"

section \<open>computePerformance\<close>

definition msgEmptyStandards :: string where
  "msgEmptyStandards = ''`standards` must be a non-empty array''"

definition msgUnparsableMetric :: string where
  "msgUnparsableMetric = ''Unable to parse metric into a numeric value''"

text \<open>\<open>errors.join('; ')\<close>\<close>

fun joinErrors :: "string list \<Rightarrow> string" where
  "joinErrors [] = []"
| "joinErrors [e] = e"
| "joinErrors (e # es) = e @ ''; '' @ joinErrors es"

definition theParser :: "PerformanceOptions \<Rightarrow> jsval \<Rightarrow> exn + num" where
  "theParser opts = (case parser opts of None \<Rightarrow> (\<lambda>v. Inr (defaultTimeParser v)) | Some p \<Rightarrow> p)"

definition theFormatAbsolute :: "PerformanceOptions \<Rightarrow> num \<Rightarrow> exn + string" where
  "theFormatAbsolute opts =
     (case formatAbsolute opts of None \<Rightarrow> (\<lambda>n. Inr (defaultFormatAbsolute n)) | Some f \<Rightarrow> f)"

definition theFormatRelative :: "PerformanceOptions \<Rightarrow> num \<Rightarrow> exn + string" where
  "theFormatRelative opts =
     (case formatRelative opts of None \<Rightarrow> (\<lambda>n. Inr (defaultFormatRelative n)) | Some f \<Rightarrow> f)"

text \<open>Lines 206 to 212.\<close>

definition findMatches :: "direction \<Rightarrow> num \<Rightarrow> Entry list \<Rightarrow> Entry list" where
  "findMatches d metricNum ns =
     filter (\<lambda>e. \<not> isNaN (cutNum e) \<and> \<not> isNaN metricNum \<and> isMatchNum metricNum (cutNum e) d) ns"

text \<open>Lines 191 to 332: what follows the check of the validation mode.\<close>

definition matchAndDiff ::
  "jsval \<Rightarrow> Standard list \<Rightarrow> PerformanceOptions \<Rightarrow> direction \<Rightarrow> string list \<Rightarrow> exn + PerformanceResult" where
  "matchAndDiff metric stds opts d errs =
     (let p = theParser opts; fa = theFormatAbsolute opts; fr = theFormatRelative opts
      in bindE (toNum p metric) (\<lambda>metricNum.
         bindE (numericLoop p 0 stds) (\<lambda>(ns, cutErrs).
           let errs1 = (if isNaN metricNum then errs @ [msgUnparsableMetric] else errs) @ cutErrs;
               matches = findMatches d metricNum ns
           in if matches = [] then unmatchedResult p fa fr d metricNum ns errs1
              else matchedResult p fa fr d metricNum ns
                     (hd (sortBy (if d = Higher then descending else ascending) matches)) errs1)))"

text \<open>
  The \<open>standards\<close> argument is \<open>None\<close> when the caller passes something that is not an
  array. The result is \<open>Inl\<close> of the error when the call throws.
\<close>

definition computePerformance ::
  "jsval \<Rightarrow> Standard list option \<Rightarrow> PerformanceOptions \<Rightarrow> exn + PerformanceResult" where
  "computePerformance metric standards opts =
     (case standards of
        None \<Rightarrow>
          Inr \<lparr>result_label = ''unknown'', index = - 1, standard = None, nextStandard = None,
               nextCut = None, diffToNext = None, diffToNextFormatted = None,
               validation = \<lparr>valid = False, errors = [msgEmptyStandards]\<rparr>\<rparr>
      | Some stds \<Rightarrow>
          if stds = [] then
            Inr \<lparr>result_label = ''unknown'', index = - 1, standard = None, nextStandard = None,
                 nextCut = None, diffToNext = None, diffToNextFormatted = None,
                 validation = \<lparr>valid = False, errors = [msgEmptyStandards]\<rparr>\<rparr>
          else
            bindE (resolveDirection (theParser opts) stds opts) (\<lambda>(d, errs0).
            bindE (validateLevels (theParser opts) stds d opts errs0) (\<lambda>errs.
              if validationMode opts = Some Throw \<and> errs \<noteq> [] then
                Inl (Error (''Validation errors: '' @ joinErrors errs))
              else matchAndDiff metric stds opts d errs)))"

section \<open>The swimming transformer\<close>

text \<open>
  The \<open>mapping\<close> object is the list of its own properties, in iteration order.
  \<open>mapping[label]\<close> is \<open>undefined\<close> for a label that the object does not have.
\<close>

definition mappingGet :: "(string \<times> string) list \<Rightarrow> string \<Rightarrow> jsval" where
  "mappingGet mapping l = (case map_of mapping l of None \<Rightarrow> JUndefined | Some v \<Rightarrow> JStr v)"

definition transformSwimmingStandards :: "(string \<times> string) list \<Rightarrow> string list option \<Rightarrow> Standard list" where
  "transformSwimmingStandards mapping levelsOrder =
     (case levelsOrder of
        Some lo \<Rightarrow>
          if 0 < length lo then
            map (\<lambda>l. \<lparr>label = l, cut = mappingGet mapping l, ident = None, description = None\<rparr>) lo
          else
            map (\<lambda>l. \<lparr>label = l, cut = mappingGet mapping l, ident = None, description = None\<rparr>)
              (map fst mapping)
      | None \<Rightarrow>
          map (\<lambda>l. \<lparr>label = l, cut = mappingGet mapping l, ident = None, description = None\<rparr>)
            (map fst mapping))"

section \<open>Inputs of the tests and of the scenarios\<close>

definition mkStandard :: "string \<Rightarrow> jsval \<Rightarrow> Standard" where
  "mkStandard l c = \<lparr>label = l, cut = c, ident = None, description = None\<rparr>"

definition timeStandards :: "Standard list" where
  "timeStandards =
     [mkStandard ''Fast'' (JNum (Fin 30)), mkStandard ''Moderate'' (JNum (Fin 60)),
      mkStandard ''Slow'' (JNum PosInf)]"

definition swimJson :: "(string \<times> string) list" where
  "swimJson = [(''AAAA'', ''57.09''), (''AAA'', ''59.79''), (''AA'', ''1:02.49''),
     (''A'', ''1:05.19''), (''BB'', ''1:10.59''), (''B'', ''1:16.09'')]"

text \<open>The result of the guard on the \<open>standards\<close> argument (lines 82 to 92).\<close>

definition unknownResult :: PerformanceResult where
  "unknownResult =
     \<lparr>result_label = ''unknown'', index = - 1, standard = None, nextStandard = None,
      nextCut = None, diffToNext = None, diffToNextFormatted = None,
      validation = \<lparr>valid = False, errors = [msgEmptyStandards]\<rparr>\<rparr>"

definition thresholds :: "Standard list" where
  "thresholds =
     [mkStandard ''Excellent'' (JNum (Fin 90)), mkStandard ''Good'' (JNum (Fin 75)),
      mkStandard ''Average'' (JNum (Fin 50)), mkStandard ''Poor'' (JNum (Fin 0))]"

section \<open>The specification's words\<close>





text \<open>A diagnostic that reports a duplicate label.\<close>

definition isDuplicateMsg :: "string \<Rightarrow> bool" where
  "isDuplicateMsg e = (take 26 e = ''Duplicate standard label '' @ [CHR 0x27])"





definition floorStandards :: "Standard list" where
  "floorStandards = [mkStandard ''Floor'' (JNum NegInf), mkStandard ''Poor'' (JNum (Fin 0))]"

section \<open>Evaluation of the parser and of the formatters\<close>

lemmas string_defs = trim_def isSpace_def matchHMS_def matchMS_def matchSeconds_def isDigit_def
  isSexDigit_def optFraction_def fractionOf_def parseFraction_def parseInt10_def digitVal_def
  jsNumber_def unsignedDecimal_def parseFloatSeconds_def

lemmas format_defs = defaultFormatAbsolute.simps defaultFormatRelative.simps jsmod_def
  mathRound_def pad2_def showNat.simps digitChar_def toFixed1_def

lemmas core_defs = computePerformance_def resolveDirection_def validateLevels_def matchAndDiff_def
  theParser_def theFormatAbsolute_def theFormatRelative_def noOptions_def bindE_def toNum_def
  findMatches_def isMatchNum_def jge_def jgt_def sortBy_def ascending_def descending_def
  unmatchedResult_def matchedResult_def nextBetter_def nextCandidates_def cutOfStandard_def
  diffTo_def formatDiff_def buildNextCutObject_def mkStandard_def labelToStd_def

lemma parse_2_30: "defaultTimeParser (JStr ''2:30.00'') = Fin 150"
  by (simp add: defaultTimeParser_def string_defs)

lemma parse_not_a_number: "defaultTimeParser (JStr ''not-a-number'') = NaN"
  by (simp add: defaultTimeParser_def string_defs Let_def)

lemma format_90: "defaultFormatAbsolute (Fin 90) = ''1:30.00''"
  by (simp add: format_defs Let_def)

lemma format_60: "defaultFormatAbsolute (Fin 60) = ''1:00.00''"
  by (simp add: format_defs Let_def)

lemma format_150_percent: "defaultFormatRelative (Fin 150) = ''150.0%''"
  by (simp add: format_defs Let_def)

section \<open>Exceptions of a custom parser\<close>

text \<open>
  Claim C1. A custom parser that throws should be caught at the call site and
  reported as a diagnostic \<open>Parser error: <message>\<close>, with \<open>NaN\<close> in place of the
  value. The function has no handler: on the input of the test \<open>custom parser that
  throws should be caught and reported\<close> the error of the parser leaves
  \<open>computePerformance\<close> as it was thrown, and no result is returned.
\<close>

theorem C1_parser_error_propagates:
  "computePerformance (JStr ''12'') (Some [mkStandard ''A'' (JStr ''10'')])
     (noOptions\<lparr>parser := Some (\<lambda>v. Inl (Error ''boom parser''))\<rparr>)
   = Inl (Error ''boom parser'')"
  by (simp add: core_defs Let_def)

section \<open>The validation mode \<open>throw\<close>\<close>

text \<open>
  Claim C2. Under \<open>validationMode: 'throw'\<close> every diagnostic of the call should make
  it raise. The check of the mode (line 187) comes before the metric and the cuts are
  parsed: on the input of the test \<open>validationMode throw still throws when enabled\<close>
  the only diagnostic is the unparsable cut, pushed after the check, and the call
  returns a result that carries it.
\<close>

theorem C2_throw_mode_returns_on_unparsable_cut:
  "computePerformance (JNum (Fin 12)) (Some [mkStandard ''A'' (JStr ''not-a-number'')])
     (noOptions\<lparr>validationMode := Some Throw\<rparr>)
   = Inr \<lparr>result_label = ''unknown'', index = - 1, standard = None, nextStandard = None,
          nextCut = None, diffToNext = None, diffToNextFormatted = None,
          validation = \<lparr>valid = False, errors = [msgUnparsableCut ''A'']\<rparr>\<rparr>"
  by (simp add: core_defs parse_not_a_number Let_def)

section \<open>Scenario 3\<close>

text \<open>
  Claim C3. With the standards Fast 30, Moderate 60, Slow Infinity, the metric
  \<open>'2:30.00'\<close> and no options, the metric parses to 150 and the result has the label
  Slow, the next standard Moderate, the absolute difference 90 printed as
  \<open>1:30.00\<close> and the relative difference printed as \<open>150.0%\<close>.
\<close>

theorem C3_scenario_3:
  "defaultTimeParser (JStr ''2:30.00'') = Fin 150 \<and>
   computePerformance (JStr ''2:30.00'') (Some timeStandards) noOptions
   = Inr \<lparr>result_label = ''Slow'', index = 2,
          standard = Some (mkStandard ''Slow'' (JNum PosInf)),
          nextStandard = Some (mkStandard ''Moderate'' (JNum (Fin 60))),
          nextCut = Some \<lparr>nc_label = ''Moderate'', nc_cut = ''1:00.00''\<rparr>,
          diffToNext = Some \<lparr>absolute = Fin 90, relative = Fin 150\<rparr>,
          diffToNextFormatted = Some \<lparr>absolute_str = ''1:30.00'', relative_str = ''150.0%''\<rparr>,
          validation = \<lparr>valid = True, errors = []\<rparr>\<rparr>"
  by (simp add: core_defs timeStandards_def parse_2_30 format_90 format_60 format_150_percent Let_def)

section \<open>Empty standards\<close>

text \<open>
  The guard of lines 82 to 92 returns before the options are read: whatever the metric
  and the options, a \<open>standards\<close> argument that is not an array or is empty gives the
  result with the label \<open>unknown\<close>, the index -1 and \<open>valid\<close> false.
\<close>

lemma empty_standards_return:
  "standards = None \<or> standards = Some [] \<Longrightarrow>
   computePerformance metric standards opts = Inr unknownResult \<and>
   result_label unknownResult = ''unknown'' \<and> index unknownResult = - 1 \<and>
   \<not> valid (validation unknownResult)"
  by (auto simp: computePerformance_def unknownResult_def)

text \<open>
  Claim C6. With a \<open>standards\<close> argument that is empty or not an array the call should
  return the result \<open>unknown\<close>, -1, \<open>valid\<close> false, and raise instead under
  \<open>validationMode: 'throw'\<close>, as the documentation of that option says of every
  validation message and as line 187 does for the diagnostics collected before it.
  The guard returns first: under \<open>throw\<close>, with an empty array or without an array,
  the call returns the result that carries the message in \<open>validation.errors\<close>.
\<close>

theorem C6_empty_standards_under_throw:
  "computePerformance (JNum (Fin 82)) (Some []) (noOptions\<lparr>validationMode := Some Throw\<rparr>)
   = Inr \<lparr>result_label = ''unknown'', index = - 1, standard = None, nextStandard = None,
          nextCut = None, diffToNext = None, diffToNextFormatted = None,
          validation = \<lparr>valid = False, errors = [msgEmptyStandards]\<rparr>\<rparr> \<and>
   computePerformance (JNum (Fin 82)) None (noOptions\<lparr>validationMode := Some Throw\<rparr>)
   = Inr \<lparr>result_label = ''unknown'', index = - 1, standard = None, nextStandard = None,
          nextCut = None, diffToNext = None, diffToNextFormatted = None,
          validation = \<lparr>valid = False, errors = [msgEmptyStandards]\<rparr>\<rparr>"
  by (simp add: computePerformance_def)

section \<open>The default absolute formatter\<close>

lemma format_carry: "defaultFormatAbsolute (Fin (1023 / 1024)) = ''00.100''"
  by (simp add: format_defs Let_def)

lemma format_30: "defaultFormatAbsolute (Fin 30) = ''30.00''"
  by (simp add: format_defs Let_def)

lemma format_3_3_percent: "defaultFormatRelative (Fin (1705 / 512)) = ''3.3%''"
  by (simp add: format_defs Let_def)

text \<open>
  Claim C8. The default absolute formatter should print exactly two fractional
  digits, rounded. The hundredths are rounded on their own and a round-up to 100 is
  not carried into the seconds: 1023/1024 = 0.9990234375, a double, is printed
  with three fractional digits. A call reaches it with the metric 30.9990234375
  against the single standard Fast, 30.
\<close>

theorem C8_hundredths_not_carried:
  "defaultFormatAbsolute (Fin (1023 / 1024)) = ''00.100'' \<and>
   computePerformance (JNum (Fin (30 + 1023 / 1024))) (Some [mkStandard ''Fast'' (JNum (Fin 30))]) noOptions
   = Inr \<lparr>result_label = ''unknown'', index = - 1, standard = None,
          nextStandard = Some (mkStandard ''Fast'' (JNum (Fin 30))),
          nextCut = Some \<lparr>nc_label = ''Fast'', nc_cut = ''30.00''\<rparr>,
          diffToNext = Some \<lparr>absolute = Fin (1023 / 1024), relative = Fin (1705 / 512)\<rparr>,
          diffToNextFormatted = Some \<lparr>absolute_str = ''00.100'', relative_str = ''3.3%''\<rparr>,
          validation = \<lparr>valid = True, errors = []\<rparr>\<rparr>"
  by (simp add: core_defs format_carry format_30 format_3_3_percent Let_def)

section \<open>The transformer\<close>

text \<open>
  Claim C9. For every mapping and every non-empty level order, the transformer returns
  one standard for each level, in the order of the levels, whose label is the level and
  whose cut is the value of the mapping at that label, as it is.
\<close>

theorem C9_transformer_order:
  "levelsOrder \<noteq> [] \<Longrightarrow>
   length (transformSwimmingStandards mapping (Some levelsOrder)) = length levelsOrder \<and>
   (\<forall>i < length levelsOrder.
      label (transformSwimmingStandards mapping (Some levelsOrder) ! i) = levelsOrder ! i \<and>
      cut (transformSwimmingStandards mapping (Some levelsOrder) ! i)
        = mappingGet mapping (levelsOrder ! i))"
  by (simp add: transformSwimmingStandards_def)

theorem C9_transformer_order_witness:
  "[''B'', ''AAAA''] \<noteq> [] \<and>
   length (transformSwimmingStandards swimJson (Some [''B'', ''AAAA''])) = 2 \<and>
   label (transformSwimmingStandards swimJson (Some [''B'', ''AAAA'']) ! 0) = ''B'' \<and>
   cut (transformSwimmingStandards swimJson (Some [''B'', ''AAAA'']) ! 0) = JStr ''1:16.09'' \<and>
   label (transformSwimmingStandards swimJson (Some [''B'', ''AAAA'']) ! 1) = ''AAAA'' \<and>
   cut (transformSwimmingStandards swimJson (Some [''B'', ''AAAA'']) ! 1) = JStr ''57.09''"
proof -
  have ne: "[''B'', ''AAAA''] \<noteq> []" by simp
  have m0: "mappingGet swimJson ''B'' = JStr ''1:16.09''"
    by (simp add: mappingGet_def swimJson_def)
  have m1: "mappingGet swimJson ''AAAA'' = JStr ''57.09''"
    by (simp add: mappingGet_def swimJson_def)
  note t = C9_transformer_order [OF ne, of swimJson]
  have len: "length (transformSwimmingStandards swimJson (Some [''B'', ''AAAA''])) = 2"
    using t [THEN conjunct1] by simp
  have i0: "label (transformSwimmingStandards swimJson (Some [''B'', ''AAAA'']) ! 0) = ''B'' \<and>
            cut (transformSwimmingStandards swimJson (Some [''B'', ''AAAA'']) ! 0) = JStr ''1:16.09''"
    using t [THEN conjunct2, rule_format, of 0] m0 by simp
  have i1: "label (transformSwimmingStandards swimJson (Some [''B'', ''AAAA'']) ! 1) = ''AAAA'' \<and>
            cut (transformSwimmingStandards swimJson (Some [''B'', ''AAAA'']) ! 1) = JStr ''57.09''"
    using t [THEN conjunct2, rule_format, of 1] m1 by simp
  from ne len i0 i1 show ?thesis by blast
qed

section \<open>Properties of a returning call\<close>

lemma bindE_Inr_iff: "(bindE m f = Inr r) = (\<exists>x. m = Inr x \<and> f x = Inr r)"
  by (cases m) (simp_all add: bindE_def)

lemma set_insertBy: "set (insertBy cmp x xs) = insert x (set xs)"
  by (induction xs) auto

lemma set_sortBy: "set (sortBy cmp xs) = set xs"
  unfolding sortBy_def by (induction xs) (simp_all add: set_insertBy)

lemma sortBy_eq_Nil: "(sortBy cmp xs = []) = (xs = [])"
  using set_sortBy [of cmp xs] by (metis set_empty)

lemma numericLoop_entries:
  "numericLoop p i stds = Inr (ns, errs) \<Longrightarrow> e \<in> set ns \<Longrightarrow>
   toNum p (cut (std e)) = Inr (cutNum e) \<and> std e \<in> set stds"
proof (induction stds arbitrary: i ns errs)
  case Nil
  then show ?case by simp
next
  case (Cons s ss)
  from Cons.prems(1) obtain c r where
    c: "toNum p (cut s) = Inr c" and r: "numericLoop p (Suc i) ss = Inr r"
    and ns: "ns = \<lparr>idx = i, std = s, cutNum = c\<rparr> # fst r"
    by (auto simp: bindE_Inr_iff)
  show ?case
  proof (cases "e = \<lparr>idx = i, std = s, cutNum = c\<rparr>")
    case True
    with c show ?thesis by simp
  next
    case False
    with ns Cons.prems(2) have "e \<in> set (fst r)" by simp
    with Cons.IH [of "Suc i" "fst r" "snd r"] r show ?thesis by simp
  qed
qed

lemma nextBetter_Some:
  assumes "nextBetter d ns ref = Some s"
  shows "\<exists>e \<in> set ns. std e = s \<and> isFinite (cutNum e)"
proof -
  from assms obtain c cs where cs: "nextCandidates d ns ref = c # cs" and s: "s = std c"
    by (auto simp: nextBetter_def split: list.splits)
  then have "c \<in> set (nextCandidates d ns ref)" by simp
  then have "c \<in> set ns \<and> isFinite (cutNum c)"
    by (auto simp: nextCandidates_def set_sortBy split: if_splits)
  with s show ?thesis by blast
qed

lemma cutOfStandard_entry:
  assumes inv: "\<forall>e \<in> set ns. toNum p (cut (std e)) = Inr (cutNum e)"
    and e: "e \<in> set ns"
  shows "cutOfStandard ns (std e) = cutNum e"
proof -
  from e have "find (\<lambda>x. std x = std e) ns \<noteq> None"
    by (auto simp: find_None_iff)
  then obtain e' where f: "find (\<lambda>x. std x = std e) ns = Some e'" by blast
  then have "e' \<in> set ns" and "std e' = std e"
    by (auto simp: find_Some_iff)
  with inv e have "cutNum e' = cutNum e" by (metis sum.inject(2))
  with f show ?thesis by (simp add: cutOfStandard_def)
qed

lemma unmatchedResult_next:
  "unmatchedResult p fa fr d mn ns errs = Inr r \<Longrightarrow>
   nextStandard r = (if isFinite mn then nextBetter d ns mn else None)"
  by (auto simp: unmatchedResult_def bindE_Inr_iff Let_def split: prod.splits)

lemma matchedResult_next:
  "matchedResult p fa fr d mn ns bm errs = Inr r \<Longrightarrow> nextStandard r = nextBetter d ns (cutNum bm)"
  by (auto simp: matchedResult_def bindE_Inr_iff Let_def split: prod.splits)

lemma unmatchedResult_diff:
  "unmatchedResult p fa fr d (Fin mv) ns errs = Inr r \<Longrightarrow> nextStandard r = Some s \<Longrightarrow>
   cutOfStandard ns s = Fin cv \<Longrightarrow> diffToNext r = Some (diffTo d cv mv)"
  by (auto simp: unmatchedResult_def bindE_Inr_iff Let_def split: prod.splits option.splits)

lemma matchedResult_diff:
  "matchedResult p fa fr d (Fin mv) ns bm errs = Inr r \<Longrightarrow> nextStandard r = Some s \<Longrightarrow>
   cutOfStandard ns s = Fin cv \<Longrightarrow> diffToNext r = Some (diffTo d cv mv)"
  by (auto simp: matchedResult_def bindE_Inr_iff Let_def split: prod.splits option.splits)

text \<open>What a returning call has computed on the way.\<close>

lemma computePerformance_Inr:
  assumes "computePerformance metric (Some stds) opts = Inr r" and "stds \<noteq> []"
  obtains d errs0 errs mn ns cutErrs errs1 where
    "resolveDirection (theParser opts) stds opts = Inr (d, errs0)"
    "validateLevels (theParser opts) stds d opts errs0 = Inr errs"
    "toNum (theParser opts) metric = Inr mn"
    "numericLoop (theParser opts) 0 stds = Inr (ns, cutErrs)"
    "errs1 = (if isNaN mn then errs @ [msgUnparsableMetric] else errs) @ cutErrs"
    "(findMatches d mn ns = [] \<and>
        unmatchedResult (theParser opts) (theFormatAbsolute opts) (theFormatRelative opts) d mn ns errs1 = Inr r) \<or>
     (findMatches d mn ns \<noteq> [] \<and>
        matchedResult (theParser opts) (theFormatAbsolute opts) (theFormatRelative opts) d mn ns
          (hd (sortBy (if d = Higher then descending else ascending) (findMatches d mn ns))) errs1 = Inr r)"
proof -
  from assms obtain d errs0 where rd: "resolveDirection (theParser opts) stds opts = Inr (d, errs0)"
    and rest: "bindE (validateLevels (theParser opts) stds d opts errs0) (\<lambda>errs.
              if validationMode opts = Some Throw \<and> errs \<noteq> [] then
                Inl (Error (''Validation errors: '' @ joinErrors errs))
              else matchAndDiff metric stds opts d errs) = Inr r"
    by (auto simp: computePerformance_def bindE_Inr_iff)
  from rest obtain errs where vl: "validateLevels (theParser opts) stds d opts errs0 = Inr errs"
    and md: "matchAndDiff metric stds opts d errs = Inr r"
    by (auto simp: bindE_Inr_iff split: if_splits)
  from md obtain mn ns cutErrs where mn: "toNum (theParser opts) metric = Inr mn"
    and nl: "numericLoop (theParser opts) 0 stds = Inr (ns, cutErrs)"
    and br: "(let errs1 = (if isNaN mn then errs @ [msgUnparsableMetric] else errs) @ cutErrs;
               matches = findMatches d mn ns
           in if matches = [] then unmatchedResult (theParser opts) (theFormatAbsolute opts) (theFormatRelative opts) d mn ns errs1
              else matchedResult (theParser opts) (theFormatAbsolute opts) (theFormatRelative opts) d mn ns
                     (hd (sortBy (if d = Higher then descending else ascending) matches)) errs1) = Inr r"
    by (auto simp: matchAndDiff_def bindE_Inr_iff Let_def)
  show thesis
    by (rule that [OF rd vl mn nl refl]) (use br in \<open>auto simp: Let_def split: if_splits\<close>)
qed


lemma nextStandard_finite:
  assumes "computePerformance metric standards opts = Inr r" and "nextStandard r = Some s"
  shows "\<exists>c. toNum (theParser opts) (cut s) = Inr (Fin c)"
proof (cases "standards = None \<or> standards = Some []")
  case True
  with assms show ?thesis by (auto simp: computePerformance_def)
next
  case False
  then obtain stds where st: "standards = Some stds" "stds \<noteq> []" by auto
  from assms(1) [unfolded st(1)] st(2) show ?thesis
  proof (rule computePerformance_Inr)
    fix d errs0 errs mn ns cutErrs errs1
    let ?p = "theParser opts"
    assume nl: "numericLoop ?p 0 stds = Inr (ns, cutErrs)"
      and br: "(findMatches d mn ns = [] \<and>
        unmatchedResult ?p (theFormatAbsolute opts) (theFormatRelative opts) d mn ns errs1 = Inr r) \<or>
       (findMatches d mn ns \<noteq> [] \<and>
        matchedResult ?p (theFormatAbsolute opts) (theFormatRelative opts) d mn ns
          (hd (sortBy (if d = Higher then descending else ascending) (findMatches d mn ns))) errs1 = Inr r)"
    from br assms(2) obtain ref where "nextBetter d ns ref = Some s"
      by (auto dest!: unmatchedResult_next matchedResult_next split: if_splits)
    then obtain e where e: "e \<in> set ns" "std e = s" "isFinite (cutNum e)"
      by (auto dest: nextBetter_Some)
    from numericLoop_entries [OF nl e(1)] e(2) have "toNum ?p (cut s) = Inr (cutNum e)" by simp
    with e(3) show ?thesis by (cases "cutNum e") simp_all
  qed
qed

lemma format_100_percent: "defaultFormatRelative (Fin 100) = ''100.0%''"
  by (simp add: format_defs Let_def)

lemma slow_for_120:
  "computePerformance (JNum (Fin 120)) (Some timeStandards) noOptions
   = Inr \<lparr>result_label = ''Slow'', index = 2,
          standard = Some (mkStandard ''Slow'' (JNum PosInf)),
          nextStandard = Some (mkStandard ''Moderate'' (JNum (Fin 60))),
          nextCut = Some \<lparr>nc_label = ''Moderate'', nc_cut = ''1:00.00''\<rparr>,
          diffToNext = Some \<lparr>absolute = Fin 60, relative = Fin 100\<rparr>,
          diffToNextFormatted = Some \<lparr>absolute_str = ''1:00.00'', relative_str = ''100.0%''\<rparr>,
          validation = \<lparr>valid = True, errors = []\<rparr>\<rparr>"
  by (simp add: core_defs timeStandards_def format_60 format_100_percent Let_def)

text \<open>
  Claim C10. A standard whose cut is not finite is never the next standard: whenever a
  call returns a next standard, the cut of that standard is a finite number (the parser
  returns a finite number on it). Such a standard can be the matched one: for the
  metric 120 and the time standards the matched standard is Slow, whose cut is
  \<open>Infinity\<close>.
\<close>

theorem C10_next_standard_is_finite:
  "(\<forall>metric standards opts r s.
      computePerformance metric standards opts = Inr r \<and> nextStandard r = Some s \<longrightarrow>
      (\<exists>c. toNum (theParser opts) (cut s) = Inr (Fin c))) \<and>
   (\<exists>r. computePerformance (JNum (Fin 120)) (Some timeStandards) noOptions = Inr r \<and>
        standard r = Some (mkStandard ''Slow'' (JNum PosInf)) \<and>
        toNum (theParser noOptions) (cut (mkStandard ''Slow'' (JNum PosInf))) = Inr PosInf)"
proof (intro conjI allI impI)
  fix metric standards opts r s
  assume "computePerformance metric standards opts = Inr r \<and> nextStandard r = Some s"
  then show "\<exists>c. toNum (theParser opts) (cut s) = Inr (Fin c)"
    using nextStandard_finite by blast
next
  show "\<exists>r. computePerformance (JNum (Fin 120)) (Some timeStandards) noOptions = Inr r \<and>
        standard r = Some (mkStandard ''Slow'' (JNum PosInf)) \<and>
        toNum (theParser noOptions) (cut (mkStandard ''Slow'' (JNum PosInf))) = Inr PosInf"
    by (simp add: slow_for_120 toNum_def mkStandard_def)
qed

text \<open>The metric 120 against the time standards: the next standard is Moderate, 60.\<close>

theorem C10_next_standard_is_finite_witness:
  "\<exists>r. computePerformance (JNum (Fin 120)) (Some timeStandards) noOptions = Inr r \<and>
     nextStandard r = Some (mkStandard ''Moderate'' (JNum (Fin 60))) \<and>
     (\<exists>c. toNum (theParser noOptions) (cut (mkStandard ''Moderate'' (JNum (Fin 60)))) = Inr (Fin c))"
  using C10_next_standard_is_finite [THEN conjunct1, rule_format,
      of "JNum (Fin 120)" "Some timeStandards" noOptions _ "mkStandard ''Moderate'' (JNum (Fin 60))"]
  by (simp add: slow_for_120)

lemma diff_to_next_finite:
  assumes call: "computePerformance metric (Some stds) opts = Inr r"
    and nxt: "nextStandard r = Some s"
    and met: "toNum (theParser opts) metric = Inr (Fin mv)"
    and dir: "resolveDirection (theParser opts) stds opts = Inr (d, errs0)"
  shows "\<exists>cv. toNum (theParser opts) (cut s) = Inr (Fin cv) \<and>
     diffToNext r =
       Some \<lparr>absolute = Fin (if d = Higher then max 0 (cv - mv) else max 0 (mv - cv)),
             relative = Fin ((if d = Higher then max 0 (cv - mv) else max 0 (mv - cv))
                             / (if cv \<noteq> 0 then \<bar>cv\<bar> else 1) * 100)\<rparr> \<and>
     0 \<le> (if d = Higher then max 0 (cv - mv) else max 0 (mv - cv))"
proof -
  from call nxt have ne: "stds \<noteq> []" by (auto simp: computePerformance_def)
  from call ne show ?thesis
  proof (rule computePerformance_Inr)
    fix d' errs0' errs mn ns cutErrs errs1
    let ?p = "theParser opts"
    assume rd: "resolveDirection ?p stds opts = Inr (d', errs0')"
      and mn: "toNum ?p metric = Inr mn"
      and nl: "numericLoop ?p 0 stds = Inr (ns, cutErrs)"
      and br: "(findMatches d' mn ns = [] \<and>
        unmatchedResult ?p (theFormatAbsolute opts) (theFormatRelative opts) d' mn ns errs1 = Inr r) \<or>
       (findMatches d' mn ns \<noteq> [] \<and>
        matchedResult ?p (theFormatAbsolute opts) (theFormatRelative opts) d' mn ns
          (hd (sortBy (if d' = Higher then descending else ascending) (findMatches d' mn ns))) errs1 = Inr r)"
    from rd dir have d: "d' = d" by simp
    from mn met have m: "mn = Fin mv" by simp
    from br nxt obtain ref where "nextBetter d ns ref = Some s"
      unfolding d by (auto dest!: unmatchedResult_next matchedResult_next split: if_splits)
    then obtain e where e: "e \<in> set ns" "std e = s" "isFinite (cutNum e)"
      by (auto dest: nextBetter_Some)
    from e(3) obtain cv where cv: "cutNum e = Fin cv" by (cases "cutNum e") simp_all
    from numericLoop_entries [OF nl] have inv: "\<forall>x \<in> set ns. toNum ?p (cut (std x)) = Inr (cutNum x)"
      by blast
    from cutOfStandard_entry [OF inv e(1)] e(2) cv have cs: "cutOfStandard ns s = Fin cv" by simp
    from inv e(1) e(2) cv have p: "toNum ?p (cut s) = Inr (Fin cv)" by auto
    from br have "diffToNext r = Some (diffTo d cv mv)"
      unfolding d m using nxt cs by (auto dest: unmatchedResult_diff matchedResult_diff)
    with p show ?thesis by (auto simp: diffTo_def Let_def)
  qed
qed

lemma unmatchedResult_nonfinite:
  "unmatchedResult p fa fr d mn ns errs = Inr r \<Longrightarrow> \<not> isFinite mn \<Longrightarrow>
   diffToNext r = None \<and> diffToNextFormatted r = None"
  by (auto simp: unmatchedResult_def bindE_Inr_iff Let_def)

lemma matchedResult_nonfinite:
  "matchedResult p fa fr d mn ns bm errs = Inr r \<Longrightarrow> \<not> isFinite mn \<Longrightarrow>
   diffToNext r = None \<and> diffToNextFormatted r = None"
  by (cases mn)
     (auto simp: matchedResult_def bindE_Inr_iff Let_def split: option.splits num.splits)

lemma diff_to_next_nonfinite:
  assumes call: "computePerformance metric (Some stds) opts = Inr r"
    and met: "toNum (theParser opts) metric = Inr mn" and inf: "\<not> isFinite mn"
  shows "diffToNext r = None \<and> diffToNextFormatted r = None"
proof (cases "stds = []")
  case True
  with call show ?thesis by (auto simp: computePerformance_def)
next
  case False
  from call False show ?thesis
  proof (rule computePerformance_Inr)
    fix d errs0 errs mn' ns cutErrs errs1
    let ?p = "theParser opts"
    assume mn: "toNum ?p metric = Inr mn'"
      and br: "(findMatches d mn' ns = [] \<and>
        unmatchedResult ?p (theFormatAbsolute opts) (theFormatRelative opts) d mn' ns errs1 = Inr r) \<or>
       (findMatches d mn' ns \<noteq> [] \<and>
        matchedResult ?p (theFormatAbsolute opts) (theFormatRelative opts) d mn' ns
          (hd (sortBy (if d = Higher then descending else ascending) (findMatches d mn' ns))) errs1 = Inr r)"
    from mn met have "mn' = mn" by simp
    with br inf show ?thesis
      by (blast dest: unmatchedResult_nonfinite matchedResult_nonfinite)
  qed
qed

text \<open>
  Claim C5, as the code has it. Whenever a call returns a next standard and the metric
  is a finite number \<open>mv\<close>, the cut of the next standard is a finite number \<open>cv\<close> and
  \<open>diffToNext.absolute\<close> is \<open>max(0, cv - mv)\<close> under \<open>higher\<close> and \<open>max(0, mv - cv)\<close>
  under \<open>lower\<close>, never negative, and \<open>diffToNext.relative\<close> is the absolute
  difference divided by \<open>|cv|\<close>, or by 1 when \<open>cv\<close> is zero, times 100. The call goes
  through the matched or the unmatched branch: the statement covers both. Whenever
  the metric is not a finite number (\<open>Infinity\<close>, \<open>-Infinity\<close>, or \<open>NaN\<close>), \<open>diffToNext\<close>
  and \<open>diffToNextFormatted\<close> are null, with or without a next standard.
\<close>

theorem C5_diff_to_next:
  assumes call: "computePerformance metric (Some stds) opts = Inr r"
  shows "(\<forall>s mv d errs0.
            nextStandard r = Some s \<and> toNum (theParser opts) metric = Inr (Fin mv) \<and>
            resolveDirection (theParser opts) stds opts = Inr (d, errs0) \<longrightarrow>
            (\<exists>cv. toNum (theParser opts) (cut s) = Inr (Fin cv) \<and>
               diffToNext r =
                 Some \<lparr>absolute = Fin (if d = Higher then max 0 (cv - mv) else max 0 (mv - cv)),
                       relative = Fin ((if d = Higher then max 0 (cv - mv) else max 0 (mv - cv))
                                       / (if cv \<noteq> 0 then \<bar>cv\<bar> else 1) * 100)\<rparr> \<and>
               0 \<le> (if d = Higher then max 0 (cv - mv) else max 0 (mv - cv)))) \<and>
         (\<forall>mn. toNum (theParser opts) metric = Inr mn \<and> \<not> isFinite mn \<longrightarrow>
            diffToNext r = None \<and> diffToNextFormatted r = None)"
proof (intro conjI allI impI)
  fix s mv d errs0
  assume "nextStandard r = Some s \<and> toNum (theParser opts) metric = Inr (Fin mv) \<and>
          resolveDirection (theParser opts) stds opts = Inr (d, errs0)"
  then have "nextStandard r = Some s" "toNum (theParser opts) metric = Inr (Fin mv)"
    "resolveDirection (theParser opts) stds opts = Inr (d, errs0)" by simp_all
  from diff_to_next_finite [OF call this]
  show "\<exists>cv. toNum (theParser opts) (cut s) = Inr (Fin cv) \<and>
               diffToNext r =
                 Some \<lparr>absolute = Fin (if d = Higher then max 0 (cv - mv) else max 0 (mv - cv)),
                       relative = Fin ((if d = Higher then max 0 (cv - mv) else max 0 (mv - cv))
                                       / (if cv \<noteq> 0 then \<bar>cv\<bar> else 1) * 100)\<rparr> \<and>
               0 \<le> (if d = Higher then max 0 (cv - mv) else max 0 (mv - cv))" .
next
  fix mn
  assume "toNum (theParser opts) metric = Inr mn \<and> \<not> isFinite mn"
  then have "toNum (theParser opts) metric = Inr mn" "\<not> isFinite mn" by simp_all
  from diff_to_next_nonfinite [OF call this]
  show "diffToNext r = None" "diffToNextFormatted r = None" by simp_all
qed

lemma format_8: "defaultFormatAbsolute (Fin 8) = ''08.00''"
  by (simp add: format_defs Let_def)

lemma format_8_9_percent: "defaultFormatRelative (Fin (80 / 9)) = ''8.9%''"
  by (simp add: format_defs Let_def)

lemma format_0: "defaultFormatAbsolute (Fin 0) = ''00.00''"
  by (simp add: format_defs Let_def)

lemma good_for_82:
  "computePerformance (JNum (Fin 82)) (Some thresholds) (noOptions\<lparr>direction := Some DirHigher\<rparr>)
   = Inr \<lparr>result_label = ''Good'', index = 1,
          standard = Some (mkStandard ''Good'' (JNum (Fin 75))),
          nextStandard = Some (mkStandard ''Excellent'' (JNum (Fin 90))),
          nextCut = Some \<lparr>nc_label = ''Excellent'', nc_cut = ''1:30.00''\<rparr>,
          diffToNext = Some \<lparr>absolute = Fin 8, relative = Fin (80 / 9)\<rparr>,
          diffToNextFormatted = Some \<lparr>absolute_str = ''08.00'', relative_str = ''8.9%''\<rparr>,
          validation = \<lparr>valid = True, errors = []\<rparr>\<rparr>"
  by (simp add: core_defs thresholds_def format_90 format_8 format_8_9_percent Let_def)

lemma floor_for_minus_infinity:
  "computePerformance (JNum NegInf) (Some floorStandards) (noOptions\<lparr>direction := Some DirHigher\<rparr>)
   = Inr \<lparr>result_label = ''Floor'', index = 0,
          standard = Some (mkStandard ''Floor'' (JNum NegInf)),
          nextStandard = Some (mkStandard ''Poor'' (JNum (Fin 0))),
          nextCut = Some \<lparr>nc_label = ''Poor'', nc_cut = ''00.00''\<rparr>,
          diffToNext = None, diffToNextFormatted = None,
          validation = \<lparr>valid = False, errors = [msgDiffUnparsable]\<rparr>\<rparr>"
  by (simp add: core_defs floorStandards_def format_0 Let_def)

text \<open>
  The metric 82 against the thresholds, under \<open>higher\<close>: 8 and 8.88 percent. The
  metric \<open>-Infinity\<close> against the standards Floor, \<open>-Infinity\<close>, and Poor, 0, under
  \<open>higher\<close>: the next standard is Poor and there is no difference.
\<close>

theorem C5_diff_to_next_witness:
  "(\<exists>r. computePerformance (JNum (Fin 82)) (Some thresholds) (noOptions\<lparr>direction := Some DirHigher\<rparr>) = Inr r \<and>
     nextStandard r = Some (mkStandard ''Excellent'' (JNum (Fin 90))) \<and>
     toNum (theParser (noOptions\<lparr>direction := Some DirHigher\<rparr>)) (JNum (Fin 82)) = Inr (Fin 82) \<and>
     resolveDirection (theParser (noOptions\<lparr>direction := Some DirHigher\<rparr>)) thresholds
       (noOptions\<lparr>direction := Some DirHigher\<rparr>) = Inr (Higher, []) \<and>
     toNum (theParser (noOptions\<lparr>direction := Some DirHigher\<rparr>))
       (cut (mkStandard ''Excellent'' (JNum (Fin 90)))) = Inr (Fin 90) \<and>
     diffToNext r = Some \<lparr>absolute = Fin (max 0 (90 - 82)), relative = Fin (max 0 (90 - 82) / \<bar>90\<bar> * 100)\<rparr>) \<and>
   (\<exists>r. computePerformance (JNum NegInf) (Some floorStandards) (noOptions\<lparr>direction := Some DirHigher\<rparr>) = Inr r \<and>
     toNum (theParser (noOptions\<lparr>direction := Some DirHigher\<rparr>)) (JNum NegInf) = Inr NegInf \<and>
     \<not> isFinite NegInf \<and> \<not> isNaN NegInf \<and>
     nextStandard r = Some (mkStandard ''Poor'' (JNum (Fin 0))) \<and>
     diffToNext r = None \<and> diffToNextFormatted r = None)"
proof -
  let ?o = "noOptions\<lparr>direction := Some DirHigher\<rparr>"
  let ?r = "\<lparr>result_label = ''Good'', index = 1,
          standard = Some (mkStandard ''Good'' (JNum (Fin 75))),
          nextStandard = Some (mkStandard ''Excellent'' (JNum (Fin 90))),
          nextCut = Some \<lparr>nc_label = ''Excellent'', nc_cut = ''1:30.00''\<rparr>,
          diffToNext = Some \<lparr>absolute = Fin 8, relative = Fin (80 / 9)\<rparr>,
          diffToNextFormatted = Some \<lparr>absolute_str = ''08.00'', relative_str = ''8.9%''\<rparr>,
          validation = \<lparr>valid = True, errors = []\<rparr>\<rparr>"
  let ?q = "\<lparr>result_label = ''Floor'', index = 0,
          standard = Some (mkStandard ''Floor'' (JNum NegInf)),
          nextStandard = Some (mkStandard ''Poor'' (JNum (Fin 0))),
          nextCut = Some \<lparr>nc_label = ''Poor'', nc_cut = ''00.00''\<rparr>,
          diffToNext = None, diffToNextFormatted = None,
          validation = \<lparr>valid = False, errors = [msgDiffUnparsable]\<rparr>\<rparr>"
  have call: "computePerformance (JNum (Fin 82)) (Some thresholds) ?o = Inr ?r"
    by (rule good_for_82)
  have nxt: "nextStandard ?r = Some (mkStandard ''Excellent'' (JNum (Fin 90)))" by simp
  have met: "toNum (theParser ?o) (JNum (Fin 82)) = Inr (Fin 82)" by (simp add: toNum_def)
  have dir: "resolveDirection (theParser ?o) thresholds ?o = Inr (Higher, [])"
    by (simp add: resolveDirection_def noOptions_def)
  have ct: "toNum (theParser ?o) (cut (mkStandard ''Excellent'' (JNum (Fin 90)))) = Inr (Fin 90)"
    by (simp add: toNum_def mkStandard_def)
  from C5_diff_to_next [OF call, THEN conjunct1, rule_format,
      of "mkStandard ''Excellent'' (JNum (Fin 90))" 82 Higher "[]"] nxt met dir ct
  have df: "diffToNext ?r = Some \<lparr>absolute = Fin (max 0 (90 - 82)), relative = Fin (max 0 (90 - 82) / \<bar>90\<bar> * 100)\<rparr>"
    by auto
  have call2: "computePerformance (JNum NegInf) (Some floorStandards) ?o = Inr ?q"
    by (rule floor_for_minus_infinity)
  have met2: "toNum (theParser ?o) (JNum NegInf) = Inr NegInf" by (simp add: toNum_def)
  have inf: "\<not> isFinite NegInf" "\<not> isNaN NegInf" by simp_all
  have nxt2: "nextStandard ?q = Some (mkStandard ''Poor'' (JNum (Fin 0)))" by simp
  from C5_diff_to_next [OF call2, THEN conjunct2, rule_format, of NegInf] met2 inf(1)
  have none: "diffToNext ?q = None \<and> diffToNextFormatted ?q = None"
    by blast
  from call nxt met dir ct df have first: "\<exists>r. computePerformance (JNum (Fin 82)) (Some thresholds) ?o = Inr r \<and>
     nextStandard r = Some (mkStandard ''Excellent'' (JNum (Fin 90))) \<and>
     toNum (theParser ?o) (JNum (Fin 82)) = Inr (Fin 82) \<and>
     resolveDirection (theParser ?o) thresholds ?o = Inr (Higher, []) \<and>
     toNum (theParser ?o) (cut (mkStandard ''Excellent'' (JNum (Fin 90)))) = Inr (Fin 90) \<and>
     diffToNext r = Some \<lparr>absolute = Fin (max 0 (90 - 82)), relative = Fin (max 0 (90 - 82) / \<bar>90\<bar> * 100)\<rparr>"
    by blast
  from call2 met2 inf nxt2 none have second: "\<exists>r. computePerformance (JNum NegInf) (Some floorStandards) ?o = Inr r \<and>
     toNum (theParser ?o) (JNum NegInf) = Inr NegInf \<and>
     \<not> isFinite NegInf \<and> \<not> isNaN NegInf \<and>
     nextStandard r = Some (mkStandard ''Poor'' (JNum (Fin 0))) \<and>
     diffToNext r = None \<and> diffToNextFormatted r = None"
    by blast
  from first second show ?thesis by (rule conjI)
qed

text \<open>
  The claim as stated fails for a metric that is not \<open>NaN\<close> but infinite: the metric
  \<open>Infinity\<close> matches Slow, the next standard is Moderate with the cut 60, and
  \<open>diffToNext\<close> is null.
\<close>

theorem C5_infinite_metric_counterexample:
  "computePerformance (JNum PosInf) (Some timeStandards) noOptions
   = Inr \<lparr>result_label = ''Slow'', index = 2,
          standard = Some (mkStandard ''Slow'' (JNum PosInf)),
          nextStandard = Some (mkStandard ''Moderate'' (JNum (Fin 60))),
          nextCut = Some \<lparr>nc_label = ''Moderate'', nc_cut = ''1:00.00''\<rparr>,
          diffToNext = None, diffToNextFormatted = None,
          validation = \<lparr>valid = False, errors = [msgDiffUnparsable]\<rparr>\<rparr> \<and>
   toNum (theParser noOptions) (JNum PosInf) = Inr PosInf \<and> \<not> isNaN PosInf \<and>
   toNum (theParser noOptions) (cut (mkStandard ''Moderate'' (JNum (Fin 60)))) = Inr (Fin 60)"
  by (simp add: core_defs timeStandards_def format_60 Let_def)

section \<open>Direction inference\<close>










section \<open>The diagnostics of a returning call\<close>

lemma not_duplicate_by_head: "e \<noteq> [] \<Longrightarrow> hd e \<noteq> CHR ''D'' \<Longrightarrow> \<not> isDuplicateMsg e"
  by (cases e) (auto simp: isDuplicateMsg_def)

lemma isDuplicateMsg_msgDuplicate [simp]: "isDuplicateMsg (msgDuplicate l)"
  by (simp add: isDuplicateMsg_def msgDuplicate_def)

lemma other_messages [simp]:
  "\<not> isDuplicateMsg msgNotMonotonic" "\<not> isDuplicateMsg msgMissingCuts"
  "\<not> isDuplicateMsg msgRequiresLevels" "\<not> isDuplicateMsg (msgMissingLevel l)"
  "\<not> isDuplicateMsg (msgUnparsablePair lo hi)" "\<not> isDuplicateMsg (msgOrdering lo a rel hi b dn)"
  "\<not> isDuplicateMsg msgUnparsableMetric" "\<not> isDuplicateMsg (msgUnparsableCut l)"
  "\<not> isDuplicateMsg msgNextUnparsable" "\<not> isDuplicateMsg msgDiffUnparsable"
  "\<not> isDuplicateMsg msgEmptyStandards"
  by (rule not_duplicate_by_head;
      simp add: msgNotMonotonic_def msgMissingCuts_def msgRequiresLevels_def msgMissingLevel_def
        msgUnparsablePair_def msgOrdering_def msgUnparsableMetric_def msgUnparsableCut_def
        msgNextUnparsable_def msgDiffUnparsable_def msgEmptyStandards_def)+

lemma filter_duplicates_map [simp]: "filter isDuplicateMsg (map msgDuplicate ls) = map msgDuplicate ls"
  by (induction ls) simp_all












section \<open>Auto direction and duplicate labels\<close>

















end
